theory Spec2Isabelle
  imports Complex_Main
begin

section \<open>JavaScript numbers\<close>

text \<open>
  The timeline engine computes with JavaScript numbers. A finite number is modelled by
  a real (rounding and overflow of doubles are abstracted away); the three values that
  are not finite are kept as constructors of their own, because the engine divides by
  a measured length that can be zero. The sign of zero is not modelled: every divisor
  of the source is a difference of two measurements or an \<open>offsetWidth\<close>, which is
  never the negative zero.
\<close>

datatype jsnum = Fin real | PInf | NInf | NaN

text \<open>\<open>a / b\<close> for two finite operands.\<close>

definition js_div :: "real \<Rightarrow> real \<Rightarrow> jsnum" where
  "js_div a b =
     (if b = 0 then (if a = 0 then NaN else if 0 < a then PInf else NInf)
      else Fin (a / b))"

text \<open>\<open>Math.min\<close> and \<open>Math.max\<close>: a NaN argument makes the result NaN.\<close>

fun Math_min :: "jsnum \<Rightarrow> jsnum \<Rightarrow> jsnum" where
  "Math_min NaN y = NaN"
| "Math_min x NaN = NaN"
| "Math_min NInf y = NInf"
| "Math_min x NInf = NInf"
| "Math_min PInf y = y"
| "Math_min x PInf = x"
| "Math_min (Fin a) (Fin b) = Fin (min a b)"

fun Math_max :: "jsnum \<Rightarrow> jsnum \<Rightarrow> jsnum" where
  "Math_max NaN y = NaN"
| "Math_max x NaN = NaN"
| "Math_max PInf y = PInf"
| "Math_max x PInf = PInf"
| "Math_max NInf y = y"
| "Math_max x NInf = x"
| "Math_max (Fin a) (Fin b) = Fin (max a b)"

text \<open>\<open>a * b\<close> and \<open>a + b\<close> on all numbers.\<close>

fun js_mul :: "jsnum \<Rightarrow> jsnum \<Rightarrow> jsnum" where
  "js_mul NaN y = NaN"
| "js_mul x NaN = NaN"
| "js_mul (Fin a) (Fin b) = Fin (a * b)"
| "js_mul (Fin a) PInf = (if a = 0 then NaN else if 0 < a then PInf else NInf)"
| "js_mul (Fin a) NInf = (if a = 0 then NaN else if 0 < a then NInf else PInf)"
| "js_mul PInf (Fin b) = (if b = 0 then NaN else if 0 < b then PInf else NInf)"
| "js_mul NInf (Fin b) = (if b = 0 then NaN else if 0 < b then NInf else PInf)"
| "js_mul PInf PInf = PInf"
| "js_mul PInf NInf = NInf"
| "js_mul NInf PInf = NInf"
| "js_mul NInf NInf = PInf"

fun js_add :: "jsnum \<Rightarrow> jsnum \<Rightarrow> jsnum" where
  "js_add NaN y = NaN"
| "js_add x NaN = NaN"
| "js_add (Fin a) (Fin b) = Fin (a + b)"
| "js_add PInf NInf = NaN"
| "js_add NInf PInf = NaN"
| "js_add PInf y = PInf"
| "js_add x PInf = PInf"
| "js_add NInf y = NInf"
| "js_add x NInf = NInf"

text \<open>\<open>a >= b\<close>: every comparison with NaN is false.\<close>

fun js_ge :: "jsnum \<Rightarrow> jsnum \<Rightarrow> bool" where
  "js_ge NaN y = False"
| "js_ge x NaN = False"
| "js_ge PInf y = True"
| "js_ge x NInf = True"
| "js_ge (Fin a) (Fin b) = (b \<le> a)"
| "js_ge (Fin a) PInf = False"
| "js_ge NInf y = False"

text \<open>\<open>a <= b\<close> is \<open>b >= a\<close>.\<close>

definition js_le :: "jsnum \<Rightarrow> jsnum \<Rightarrow> bool" where
  "js_le a b = js_ge b a"

text \<open>A number that is a real in the closed unit interval.\<close>

fun in_unit_interval :: "jsnum \<Rightarrow> bool" where
  "in_unit_interval (Fin x) = (0 \<le> x \<and> x \<le> 1)"
| "in_unit_interval PInf = False"
| "in_unit_interval NInf = False"
| "in_unit_interval NaN = False"

section \<open>The DOM as the engine reads it\<close>

text \<open>
  \<open>getBoundingClientRect()\<close> of an element, and the element with the layout
  properties the engine reads. Each value is the one the read returns at the moment
  the source performs it.
\<close>

record rect =
  rect_top :: real
  rect_left :: real
  rect_width :: real
  rect_height :: real

record element =
  boundingClientRect :: rect
  offsetLeft :: real
  offsetWidth :: real
  offsetHeight :: real
  scrollWidth :: real

section \<open>Progress Mapper\<close>

text \<open>
  Lines 409 to 415 of \<open>updateTimeline\<close> (vertical mobile layout): the progress for the
  rectangle of the timeline area and the viewport height.
\<close>

definition vertical_progress :: "rect \<Rightarrow> real \<Rightarrow> jsnum" where
  "vertical_progress areaRect viewportHeight =
     (let threshold = viewportHeight * 0.3;
          scrollStart = threshold - rect_top areaRect;
          scrollRange = rect_height areaRect - threshold
      in Math_max (Fin 0) (Math_min (Fin 1) (js_div scrollStart scrollRange)))"

text \<open>
  Lines 442 to 445 of \<open>updateTimeline\<close> (horizontal layout): the progress for the
  rectangle of the scroll spacer, \<open>this.scrollHeight\<close> and the content height.
\<close>

definition horizontal_progress :: "rect \<Rightarrow> real \<Rightarrow> real \<Rightarrow> jsnum" where
  "horizontal_progress rect scrollHeight contentHeight =
     (let scrollStart = - rect_top rect;
          scrollRange = scrollHeight - contentHeight
      in Math_max (Fin 0) (Math_min (Fin 1) (js_div scrollStart scrollRange)))"

section \<open>The engine instance and the page\<close>

text \<open>
  The settings the engine compares. \<open>navigationType\<close> is only ever compared with
  \<open>'arrows'\<close> and \<open>mobileLayout\<close> with \<open>'vertical'\<close>, so each is a two-valued type.
\<close>

datatype navigation = Scroll | Arrows

datatype layout = Horizontal | Vertical

text \<open>
  What one pass reads and never writes: the window, the elements that
  \<open>this.el.querySelector\<close> finds (\<open>None\<close> for \<open>null\<close>), the element references the
  instance holds (\<open>this.itemsTrack\<close>, \<open>this.labelsTrack\<close>, \<open>this.progressFill\<close>,
  \<open>this.prevButton\<close>, \<open>this.nextButton\<close>), the \<open>.wm-timeline-item\<close> children of the items
  track and the array \<open>this.dots\<close>.
\<close>

record dom =
  innerWidth :: real
  innerHeight :: real
  scrollSpacer :: "element option"
  stickyWrapper :: "element option"
  timelineArea :: "element option"
  progressTrack :: "element option"
  progressContainer :: "element option"
  itemsContainer :: "element option"
  itemsTrack :: "element option"
  labelsTrack :: bool
  progressFill :: bool
  prevButton :: bool
  nextButton :: bool
  items :: "element list"
  dots :: "element list"

text \<open>
  A value written to \<open>style.height\<close>, \<open>style.width\<close> or \<open>style.transform\<close>:
  \<open>'auto'\<close>, a pixel length, a percentage, or \<open>translateX(-xpx)\<close>, which moves the
  track by \<open>x\<close> pixels to the left.
\<close>

datatype css = Unset | Auto | Px jsnum | Percent jsnum | TranslateX_neg_px jsnum

text \<open>
  What the passes write: fields of the instance (\<open>this.scrollHeight\<close>,
  \<open>this.currentIndex\<close>), the styles of the spacer, the progress fill and the two tracks,
  the class \<open>wm-timeline-dot--filled\<close> of each dot and the class
  \<open>wm-timeline-arrow--disabled\<close> of each button. \<open>data_length\<close> is the length of
  \<open>this.data\<close>, \<open>None\<close> when \<open>this.data\<close> is \<open>null\<close>; no pass changes it or the settings.
\<close>

record timeline =
  data_length :: "nat option"
  navigationType :: navigation
  mobileLayout :: layout
  scrollPerItem :: real
  scrollHeight :: real
  currentIndex :: int
  spacer_height :: css
  fill_width :: css
  fill_height :: css
  itemsTrack_transform :: css
  labelsTrack_transform :: css
  dots_filled :: "bool list"
  prev_disabled :: bool
  next_disabled :: bool

text \<open>How a method call ends: it returns, or a statement throws a \<open>TypeError\<close>.\<close>

datatype completion = Normal | TypeError

text \<open>\<open>xs[i]\<close> for an integral index: \<open>undefined\<close> outside the array.\<close>

definition js_index :: "'a list \<Rightarrow> int \<Rightarrow> 'a option" where
  "js_index xs i = (if 0 \<le> i \<and> nat i < length xs then Some (xs ! nat i) else None)"

section \<open>Dimension Calculator\<close>

text \<open>
  The vertical mobile layout is active when the window is at most 767 pixels wide and
  \<open>mobileLayout\<close> is \<open>'vertical'\<close>. The source computes this test in place, with the same two
  lines, in \<open>calculateDimensions\<close>, in \<open>updateTimeline\<close> and in the resize callback.
\<close>

definition isVerticalMobile :: "dom \<Rightarrow> timeline \<Rightarrow> bool" where
  "isVerticalMobile d t =
     (let isMobile = innerWidth d \<le> 767 in isMobile \<and> mobileLayout t = Vertical)"

definition calculateDimensions :: "dom \<Rightarrow> timeline \<Rightarrow> timeline" where
  "calculateDimensions d t =
     (case data_length t of
        None \<Rightarrow> t
      | Some n \<Rightarrow>
          if n = 0 then t
          else (case scrollSpacer d of
            None \<Rightarrow> t
          | Some spacer \<Rightarrow>
              if navigationType t = Arrows \<or> isVerticalMobile d t
                 then t\<lparr>spacer_height := Auto\<rparr>
                 else
                   let viewportHeight = innerHeight d;
                       contentHeight = (case stickyWrapper d of
                                          Some w \<Rightarrow> offsetHeight w
                                        | None \<Rightarrow> viewportHeight);
                       itemCount = real n;
                       perItem = (if scrollPerItem t = 0 then 300 else scrollPerItem t);
                       h = contentHeight + itemCount * perItem
                   in t\<lparr>scrollHeight := h, spacer_height := Px (Fin h)\<rparr>))"

section \<open>Scroll-driven update\<close>

text \<open>
  The two \<open>this.dots.forEach\<close> loops of \<open>updateTimeline\<close>: a dot is filled when the
  fill edge is at or beyond the centre of its rectangle.
\<close>

definition dotCenter_vertical :: "element \<Rightarrow> real" where
  "dotCenter_vertical dot =
     rect_top (boundingClientRect dot) + rect_height (boundingClientRect dot) / 2"

definition dotCenter_horizontal :: "element \<Rightarrow> real" where
  "dotCenter_horizontal dot =
     rect_left (boundingClientRect dot) + rect_width (boundingClientRect dot) / 2"

definition updateTimeline :: "dom \<Rightarrow> timeline \<Rightarrow> timeline" where
  "updateTimeline d t =
     (case scrollSpacer d of
        None \<Rightarrow> t
      | Some spacer \<Rightarrow>
          if itemsTrack d = None \<or> \<not> progressFill d then t
          else
            let isVertical = isVerticalMobile d t
            in if isVertical then
                 (case timelineArea d of
                    None \<Rightarrow> t
                  | Some area \<Rightarrow>
                      let progress = vertical_progress (boundingClientRect area) (innerHeight d);
                          t1 = t\<lparr>fill_height := Percent (js_mul progress (Fin 100)),
                                 fill_width := Percent (Fin 100)\<rparr>
                      in (case progressTrack d of
                           None \<Rightarrow> t1
                         | Some track \<Rightarrow>
                             let trackRect = boundingClientRect track;
                                 progressFillBottom =
                                   js_add (Fin (rect_top trackRect))
                                     (js_mul progress (Fin (rect_height trackRect)))
                             in t1\<lparr>dots_filled :=
                                      map (\<lambda>dot. js_ge progressFillBottom
                                                     (Fin (dotCenter_vertical dot)))
                                        (dots d)\<rparr>))
               else
                 let rect = boundingClientRect spacer;
                     viewportHeight = innerHeight d;
                     contentHeight = (case stickyWrapper d of
                                        Some w \<Rightarrow> offsetHeight w
                                      | None \<Rightarrow> viewportHeight);
                     progress = horizontal_progress rect (scrollHeight t) contentHeight;
                     t1 = t\<lparr>fill_width := Percent (js_mul progress (Fin 100)),
                            fill_height := Percent (Fin 100)\<rparr>;
                     t2 = (case (itemsContainer d, itemsTrack d) of
                             (Some container, Some track) \<Rightarrow>
                               let containerWidth = offsetWidth container;
                                   trackWidth = scrollWidth track;
                                   maxTranslate = max 0 (trackWidth - containerWidth);
                                   translateX = js_mul progress (Fin maxTranslate);
                                   t1a = t1\<lparr>itemsTrack_transform := TranslateX_neg_px translateX\<rparr>
                               in if labelsTrack d
                                  then t1a\<lparr>labelsTrack_transform := TranslateX_neg_px translateX\<rparr>
                                  else t1a
                           | _ \<Rightarrow> t1)
                 in (case progressContainer d of
                      None \<Rightarrow> t2
                    | Some pc \<Rightarrow>
                        let progressRect = boundingClientRect pc;
                            progressBarLeft = rect_left progressRect;
                            progressFillWidth = js_mul progress (Fin (rect_width progressRect));
                            progressFillRight = js_add (Fin progressBarLeft) progressFillWidth
                        in t2\<lparr>dots_filled :=
                                 map (\<lambda>dot. js_ge progressFillRight
                                                (Fin (dotCenter_horizontal dot)))
                                   (dots d)\<rparr>))"

section \<open>Index Navigator\<close>

text \<open>
  \<open>updateArrowStates\<close> reads \<open>this.data.length\<close> once both buttons exist, which throws
  when \<open>this.data\<close> is \<open>null\<close>.
\<close>

definition updateArrowStates :: "dom \<Rightarrow> timeline \<Rightarrow> completion \<times> timeline" where
  "updateArrowStates d t =
     (if \<not> prevButton d \<or> \<not> nextButton d then (Normal, t)
      else (case data_length t of
        None \<Rightarrow> (TypeError, t\<lparr>prev_disabled := (currentIndex t = 0)\<rparr>)
      | Some n \<Rightarrow>
          (Normal, t\<lparr>prev_disabled := (currentIndex t = 0),
                     next_disabled := (int n - 1 \<le> currentIndex t)\<rparr>)))"

text \<open>
  Lines 492 to 530 of \<open>goToIndex\<close>: once the container, the track, at least one
  item, the progress track, the current item and the current dot are found, centre
  the current item, move both tracks and set the fill. The last statement
  dereferences \<open>this.progressFill\<close>.
\<close>

definition centerCurrentItem :: "dom \<Rightarrow> int \<Rightarrow> timeline \<Rightarrow> completion \<times> timeline" where
  "centerCurrentItem d itemCount t =
     (let found = (case itemsTrack d of Some _ \<Rightarrow> items d | None \<Rightarrow> [])
      in case (itemsContainer d, itemsTrack d, progressTrack d) of
           (Some container, Some track, Some ptrack) \<Rightarrow>
             if found \<noteq> [] then
               (let containerWidth = offsetWidth container
                in case (js_index found (currentIndex t), js_index (dots d) (currentIndex t)) of
                     (Some currentItem, Some currentDot) \<Rightarrow>
                       let itemOffset = offsetLeft currentItem;
                           itemWidth = offsetWidth currentItem;
                           targetTranslate =
                             max 0 (itemOffset - (containerWidth / 2) + (itemWidth / 2));
                           trackScrollWidth = scrollWidth track;
                           maxTranslate = max 0 (trackScrollWidth - containerWidth);
                           translateX = min targetTranslate maxTranslate;
                           t1 = t\<lparr>itemsTrack_transform := TranslateX_neg_px (Fin translateX)\<rparr>;
                           t2 = (if labelsTrack d
                                 then t1\<lparr>labelsTrack_transform :=
                                           TranslateX_neg_px (Fin translateX)\<rparr>
                                 else t1);
                           itemCenter = itemOffset + (itemWidth / 2);
                           dotPositionAfterTranslate = itemCenter - translateX;
                           progressTrackWidth = offsetWidth ptrack;
                           computed =
                             Math_min (Fin 100)
                               (Math_max (Fin 0)
                                  (js_mul (js_div dotPositionAfterTranslate progressTrackWidth)
                                     (Fin 100)));
                           fillPercent =
                             (if currentIndex t = itemCount - 1 then Fin 100 else computed)
                       in if progressFill d
                          then (Normal, t2\<lparr>fill_width := Percent fillPercent\<rparr>)
                          else (TypeError, t2)
                   | _ \<Rightarrow> (Normal, t))
             else (Normal, t)
         | _ \<Rightarrow> (Normal, t))"

definition goToIndex :: "dom \<Rightarrow> int \<Rightarrow> timeline \<Rightarrow> completion \<times> timeline" where
  "goToIndex d index t =
     (case data_length t of
        None \<Rightarrow> (Normal, t)
      | Some n \<Rightarrow>
          if n = 0 then (Normal, t)
          else
            let itemCount = int n;
                t1 = t\<lparr>currentIndex := max 0 (min index (itemCount - 1))\<rparr>
            in (case centerCurrentItem d itemCount t1 of
                  (TypeError, t2) \<Rightarrow> (TypeError, t2)
                | (Normal, t2) \<Rightarrow>
                    updateArrowStates d
                      (t2\<lparr>dots_filled :=
                            map (\<lambda>i. int i \<le> currentIndex t2) [0..<length (dots d)]\<rparr>)))"

text \<open>\<open>goNext\<close> and \<open>goPrev\<close>; \<open>goNext\<close> reads \<open>this.data.length\<close> first.\<close>

definition goNext :: "dom \<Rightarrow> timeline \<Rightarrow> completion \<times> timeline" where
  "goNext d t =
     (case data_length t of
        None \<Rightarrow> (TypeError, t)
      | Some n \<Rightarrow>
          if currentIndex t < int n - 1 then goToIndex d (currentIndex t + 1) t
          else (Normal, t))"

definition goPrev :: "dom \<Rightarrow> timeline \<Rightarrow> completion \<times> timeline" where
  "goPrev d t =
     (if 0 < currentIndex t then goToIndex d (currentIndex t - 1) t else (Normal, t))"

section \<open>Resize recomputation in arrow mode\<close>

text \<open>
  The body of the timer callback that \<open>bindEvents\<close> installs when \<open>navigationType\<close> is
  \<open>'arrows'\<close> (lines 570 to 581); the 100 ms timer itself is not modelled.
\<close>

definition resizeArrows :: "dom \<Rightarrow> timeline \<Rightarrow> completion \<times> timeline" where
  "resizeArrows d t =
     (let currentIsVertical = isVerticalMobile d t;
          t1 = calculateDimensions d t
      in if currentIsVertical then (Normal, updateTimeline d t1)
         else goToIndex d (currentIndex t1) t1)"

section \<open>Concrete pages and instances\<close>

text \<open>
  An element whose rectangle has its left edge at \<open>x\<close>, its top edge at \<open>y\<close>, and
  the given width and height, laid out without overflow.
\<close>

definition box :: "real \<Rightarrow> real \<Rightarrow> real \<Rightarrow> real \<Rightarrow> element" where
  "box x y w h =
     \<lparr>boundingClientRect = \<lparr>rect_top = y, rect_left = x, rect_width = w, rect_height = h\<rparr>,
      offsetLeft = x, offsetWidth = w, offsetHeight = h, scrollWidth = w\<rparr>"

text \<open>
  A desktop page of five items, each 400 pixels wide, on a track of 2000 pixels in a
  container of 1200; the spacer has been scrolled 750 pixels past the top of the
  viewport and the sticky content is 800 pixels high.
\<close>

definition desktop_page :: dom where
  "desktop_page =
     \<lparr>innerWidth = 1200, innerHeight = 900,
      scrollSpacer = Some (box 0 (- 750) 1200 2300),
      stickyWrapper = Some (box 0 0 1200 800),
      timelineArea = Some (box 0 100 1200 600),
      progressTrack = Some (box 0 300 1200 4),
      progressContainer = Some (box 0 300 1200 4),
      itemsContainer = Some (box 0 320 1200 400),
      itemsTrack = Some ((box 0 320 1200 400)\<lparr>scrollWidth := 2000\<rparr>),
      labelsTrack = True, progressFill = True, prevButton = True, nextButton = True,
      items = [box 0 320 400 400, box 400 320 400 400, box 800 320 400 400,
               box 1200 320 400 400, box 1600 320 400 400],
      dots = [box 190 290 20 20, box 590 290 20 20, box 990 290 20 20,
              box 1390 290 20 20, box 1790 290 20 20]\<rparr>"

text \<open>
  A phone page in the vertical layout, 400 pixels wide and 1000 high, whose timeline
  area has its top edge at \<open>y\<close> and is \<open>h\<close> pixels high, with three dots.
\<close>

definition mobile_page :: "real \<Rightarrow> real \<Rightarrow> dom" where
  "mobile_page y h =
     \<lparr>innerWidth = 400, innerHeight = 1000,
      scrollSpacer = Some (box 0 y 400 (h + 200)),
      stickyWrapper = Some (box 0 y 400 (h + 200)),
      timelineArea = Some (box 0 y 400 h),
      progressTrack = Some (box 20 y 4 h),
      progressContainer = Some (box 20 y 4 h),
      itemsContainer = Some (box 40 y 360 h),
      itemsTrack = Some (box 40 y 360 h),
      labelsTrack = True, progressFill = True, prevButton = False, nextButton = False,
      items = [box 40 y 360 (h / 3), box 40 (y + h / 3) 360 (h / 3),
               box 40 (y + 2 * h / 3) 360 (h / 3)],
      dots = [box 12 y 20 20, box 12 (y + h / 3) 20 20, box 12 (y + 2 * h / 3) 20 20]\<rparr>"

text \<open>
  The instance as the constructor and \<open>buildLayout\<close> leave it for \<open>n\<close> items: nothing
  written yet, \<open>currentIndex\<close> and \<open>scrollHeight\<close> zero, the default \<open>scrollPerItem\<close>.
\<close>

definition fresh_timeline :: "navigation \<Rightarrow> layout \<Rightarrow> nat \<Rightarrow> timeline" where
  "fresh_timeline nav lay n =
     \<lparr>data_length = Some n, navigationType = nav, mobileLayout = lay,
      scrollPerItem = 300, scrollHeight = 0, currentIndex = 0,
      spacer_height = Unset, fill_width = Unset, fill_height = Unset,
      itemsTrack_transform = Unset, labelsTrack_transform = Unset,
      dots_filled = replicate n False, prev_disabled = False, next_disabled = False\<rparr>"

section \<open>Arithmetic of the clamped ratio\<close>

text \<open>
  Both progress computations end in
  \<open>Math.max(0, Math.min(1, scrollStart / scrollRange))\<close>. For a range that is not zero
  this is the clamp of the real quotient; for a zero range it is decided by the sign
  of the start.
\<close>

lemma clamp_div_pos:
  "0 < r \<Longrightarrow>
   Math_max (Fin 0) (Math_min (Fin 1) (js_div s r)) = Fin (max 0 (min 1 (s / r)))"
  by (simp add: js_div_def)

lemma clamp_div_neg:
  "r < 0 \<Longrightarrow>
   Math_max (Fin 0) (Math_min (Fin 1) (js_div s r)) = Fin (max 0 (min 1 (s / r)))"
  by (simp add: js_div_def)

lemma clamp_div_zero:
  "Math_max (Fin 0) (Math_min (Fin 1) (js_div s 0)) =
     (if s = 0 then NaN else if 0 < s then Fin 1 else Fin 0)"
  by (simp add: js_div_def)

lemma clamp_div_degenerate_iff:
  assumes "r \<le> 0" and "s \<noteq> 0 \<or> r \<noteq> 0"
  shows "Math_max (Fin 0) (Math_min (Fin 1) (js_div s r)) = Fin 0
         \<longleftrightarrow> (r < 0 \<and> 0 \<le> s) \<or> (r = 0 \<and> s < 0)"
proof (cases "r = 0")
  case True
  with assms show ?thesis by (simp add: clamp_div_zero)
next
  case False
  with assms have r: "r < 0" by simp
  have "s / r \<le> 0 \<longleftrightarrow> 0 \<le> s"
    using r by (auto simp: divide_le_0_iff)
  moreover have "max 0 (min 1 (s / r)) = 0 \<longleftrightarrow> s / r \<le> 0"
    by (auto simp: max_def min_def)
  ultimately have "max 0 (min 1 (s / r)) = 0 \<longleftrightarrow> 0 \<le> s"
    by simp
  with r show ?thesis by (simp add: clamp_div_neg)
qed

lemma clamp_div_in_unit:
  "s \<noteq> 0 \<or> r \<noteq> 0 \<Longrightarrow>
   in_unit_interval (Math_max (Fin 0) (Math_min (Fin 1) (js_div s r)))"
  by (auto simp: js_div_def)

lemma clamp_div_mono:
  assumes "s1 \<le> s2" and "0 \<le> r" and "r = 0 \<longrightarrow> s1 \<noteq> 0 \<and> s2 \<noteq> 0"
  shows "js_le (Math_max (Fin 0) (Math_min (Fin 1) (js_div s1 r)))
               (Math_max (Fin 0) (Math_min (Fin 1) (js_div s2 r)))"
proof (cases "r = 0")
  case True
  with assms show ?thesis by (auto simp: clamp_div_zero js_le_def)
next
  case False
  with assms have r: "0 < r" by simp
  have "s1 / r \<le> s2 / r" using assms(1) r by (simp add: divide_right_mono)
  then have "max 0 (min 1 (s1 / r)) \<le> max 0 (min 1 (s2 / r))"
    by (auto simp: max_def min_def)
  with r show ?thesis by (simp add: clamp_div_pos js_le_def)
qed

section \<open>Properties of the Progress Mapper\<close>

text \<open>
  Claim C4. In the horizontal layout, whenever the scroll range
  \<open>scrollHeight - contentHeight\<close> is positive, the progress is the quotient of
  \<open>-stickyTop\<close> by the range, clamped into the unit interval. A spacer scrolled 500
  pixels past the top with scroll height 2300 and content height 800 has range 1500
  and progress one third.
\<close>

theorem horizontal_progress_is_clamped_ratio:
  "(0 < sh - ch \<longrightarrow>
      horizontal_progress spacerRect sh ch =
        Fin (max 0 (min 1 ((- rect_top spacerRect) / (sh - ch)))))
   \<and> horizontal_progress
        \<lparr>rect_top = - 500, rect_left = 0, rect_width = 1200, rect_height = 2300\<rparr> 2300 800
      = Fin (1 / 3)"
  by (simp add: horizontal_progress_def clamp_div_pos)

theorem horizontal_progress_is_clamped_ratio_witness:
  "(0::real) < 2300 - 800 \<and>
   horizontal_progress
     \<lparr>rect_top = - 1800, rect_left = 0, rect_width = 1200, rect_height = 2300\<rparr> 2300 800 = Fin 1"
  using horizontal_progress_is_clamped_ratio
    [of 2300 800 "\<lparr>rect_top = - 1800, rect_left = 0, rect_width = 1200, rect_height = 2300\<rparr>"]
  by simp

text \<open>
  Away from the point where both the start and the range are zero, the progress is a
  real number of the unit interval.
\<close>

lemma vertical_progress_in_unit:
  "vh * 0.3 - rect_top a \<noteq> 0 \<or> rect_height a - vh * 0.3 \<noteq> 0 \<Longrightarrow>
   in_unit_interval (vertical_progress a vh)"
  unfolding vertical_progress_def Let_def by (rule clamp_div_in_unit)

lemma horizontal_progress_in_unit:
  "- rect_top r \<noteq> 0 \<or> sh - ch \<noteq> 0 \<Longrightarrow> in_unit_interval (horizontal_progress r sh ch)"
  unfolding horizontal_progress_def Let_def by (rule clamp_div_in_unit)

text \<open>
  Claim C1 does not hold as stated: the source has no branch for a range that is zero
  or negative. A timeline area 200 pixels high in a viewport of 1000 has range
  \<open>200 - 300 = -100\<close>; with its top edge at 350 the start is \<open>-50\<close> and the
  progress is one half, so the fill is set to 50 percent.
\<close>

theorem degenerate_range_counterexample:
  "rect_height \<lparr>rect_top = 350, rect_left = 0, rect_width = 400, rect_height = 200\<rparr>
     - 1000 * 0.3 \<le> 0
   \<and> vertical_progress
       \<lparr>rect_top = 350, rect_left = 0, rect_width = 400, rect_height = 200\<rparr> 1000 = Fin (1 / 2)
   \<and> vertical_progress
       \<lparr>rect_top = 350, rect_left = 0, rect_width = 400, rect_height = 200\<rparr> 1000 \<noteq> Fin 0
   \<and> fill_height (updateTimeline (mobile_page 350 200) (fresh_timeline Scroll Vertical 3))
       = Percent (Fin 50)"
  by (simp add: vertical_progress_def js_div_def updateTimeline_def isVerticalMobile_def
      mobile_page_def fresh_timeline_def box_def)

text \<open>
  Claim C1, amended. When the scroll range is zero or negative (and start and range
  are not both zero), the progress is exactly 0 if and only if either the range is
  negative and the start is at least zero, or the range is zero and the start is
  negative. This holds for the vertical and for the horizontal computation.
\<close>

theorem degenerate_range_fraction:
  "(rect_height a - vh * 0.3 \<le> 0
      \<and> (vh * 0.3 - rect_top a \<noteq> 0 \<or> rect_height a - vh * 0.3 \<noteq> 0) \<longrightarrow>
      (vertical_progress a vh = Fin 0 \<longleftrightarrow>
         (rect_height a - vh * 0.3 < 0 \<and> 0 \<le> vh * 0.3 - rect_top a)
         \<or> (rect_height a - vh * 0.3 = 0 \<and> vh * 0.3 - rect_top a < 0)))
   \<and> (sh - ch \<le> 0 \<and> (- rect_top r \<noteq> 0 \<or> sh - ch \<noteq> 0) \<longrightarrow>
      (horizontal_progress r sh ch = Fin 0 \<longleftrightarrow>
         (sh - ch < 0 \<and> 0 \<le> - rect_top r) \<or> (sh - ch = 0 \<and> - rect_top r < 0)))"
proof (intro conjI impI)
  assume h: "rect_height a - vh * 0.3 \<le> 0
      \<and> (vh * 0.3 - rect_top a \<noteq> 0 \<or> rect_height a - vh * 0.3 \<noteq> 0)"
  then show "vertical_progress a vh = Fin 0 \<longleftrightarrow>
         (rect_height a - vh * 0.3 < 0 \<and> 0 \<le> vh * 0.3 - rect_top a)
         \<or> (rect_height a - vh * 0.3 = 0 \<and> vh * 0.3 - rect_top a < 0)"
    unfolding vertical_progress_def Let_def
    using clamp_div_degenerate_iff [of "rect_height a - vh * 0.3" "vh * 0.3 - rect_top a"]
    by blast
next
  assume h: "sh - ch \<le> 0 \<and> (- rect_top r \<noteq> 0 \<or> sh - ch \<noteq> 0)"
  then show "horizontal_progress r sh ch = Fin 0 \<longleftrightarrow>
         (sh - ch < 0 \<and> 0 \<le> - rect_top r) \<or> (sh - ch = 0 \<and> - rect_top r < 0)"
    unfolding horizontal_progress_def Let_def
    using clamp_div_degenerate_iff [of "sh - ch" "- rect_top r"]
    by blast
qed

theorem degenerate_range_fraction_witness:
  "rect_height \<lparr>rect_top = 250, rect_left = 0, rect_width = 400, rect_height = 200\<rparr>
     - 1000 * 0.3 \<le> 0
   \<and> vertical_progress
       \<lparr>rect_top = 250, rect_left = 0, rect_width = 400, rect_height = 200\<rparr> 1000 = Fin 0
   \<and> (0::real) - 800 \<le> 0
   \<and> horizontal_progress
       \<lparr>rect_top = - 100, rect_left = 0, rect_width = 1200, rect_height = 0\<rparr> 0 800 = Fin 0"
  using degenerate_range_fraction
    [of "\<lparr>rect_top = 250, rect_left = 0, rect_width = 400, rect_height = 200\<rparr>" 1000 0 800
        "\<lparr>rect_top = - 100, rect_left = 0, rect_width = 1200, rect_height = 0\<rparr>"]
  by simp

text \<open>
  Claim C2. The progress is meant to be a real number of the unit interval for every
  geometry. The source clamps with \<open>Math.max(0, Math.min(1, _))\<close>, which does not
  clamp NaN: a timeline area whose height equals the threshold (300 of a viewport of
  1000) and whose top edge is at the threshold gives \<open>0 / 0\<close>, the progress is NaN
  and the fill height is written as \<open>NaN%\<close>.
\<close>

theorem progress_not_a_number:
  "vertical_progress
     \<lparr>rect_top = 300, rect_left = 0, rect_width = 400, rect_height = 300\<rparr> 1000 = NaN
   \<and> \<not> in_unit_interval
         (vertical_progress
            \<lparr>rect_top = 300, rect_left = 0, rect_width = 400, rect_height = 300\<rparr> 1000)
   \<and> fill_height (updateTimeline (mobile_page 300 300) (fresh_timeline Scroll Vertical 3))
       = Percent NaN"
  by (simp add: vertical_progress_def js_div_def updateTimeline_def isVerticalMobile_def
      mobile_page_def fresh_timeline_def box_def)

text \<open>
  Claim C8 does not hold as stated. The scroll offset grows as the top edge of the
  measured element moves up. With a negative range (area height 200, threshold 300)
  moving the top edge from 350 up to 325 lowers the progress from one half to one
  quarter.
\<close>

theorem progress_monotone_counterexample:
  "rect_top \<lparr>rect_top = 325, rect_left = 0, rect_width = 400, rect_height = 200\<rparr>
     \<le> rect_top \<lparr>rect_top = 350, rect_left = 0, rect_width = 400, rect_height = 200\<rparr>
   \<and> vertical_progress
       \<lparr>rect_top = 350, rect_left = 0, rect_width = 400, rect_height = 200\<rparr> 1000 = Fin (1 / 2)
   \<and> vertical_progress
       \<lparr>rect_top = 325, rect_left = 0, rect_width = 400, rect_height = 200\<rparr> 1000 = Fin (1 / 4)
   \<and> \<not> js_le
         (vertical_progress
            \<lparr>rect_top = 350, rect_left = 0, rect_width = 400, rect_height = 200\<rparr> 1000)
         (vertical_progress
            \<lparr>rect_top = 325, rect_left = 0, rect_width = 400, rect_height = 200\<rparr> 1000)"
  by (simp add: vertical_progress_def js_div_def js_le_def)

text \<open>
  Claim C8, amended. For a fixed geometry whose scroll range is positive, or zero as
  long as the start is not zero at either offset, a larger scroll offset (a top edge
  that is not lower) never gives a smaller progress, in the vertical and in the
  horizontal computation.
\<close>

theorem progress_monotone:
  "(rect_top a2 \<le> rect_top a1 \<and> rect_height a2 = rect_height a1
      \<and> 0 \<le> rect_height a1 - vh * 0.3
      \<and> (rect_height a1 - vh * 0.3 = 0 \<longrightarrow>
            vh * 0.3 - rect_top a1 \<noteq> 0 \<and> vh * 0.3 - rect_top a2 \<noteq> 0) \<longrightarrow>
      js_le (vertical_progress a1 vh) (vertical_progress a2 vh))
   \<and> (rect_top r2 \<le> rect_top r1 \<and> 0 \<le> sh - ch
      \<and> (sh - ch = 0 \<longrightarrow> rect_top r1 \<noteq> 0 \<and> rect_top r2 \<noteq> 0) \<longrightarrow>
      js_le (horizontal_progress r1 sh ch) (horizontal_progress r2 sh ch))"
proof (intro conjI impI)
  assume h: "rect_top a2 \<le> rect_top a1 \<and> rect_height a2 = rect_height a1
      \<and> 0 \<le> rect_height a1 - vh * 0.3
      \<and> (rect_height a1 - vh * 0.3 = 0 \<longrightarrow>
            vh * 0.3 - rect_top a1 \<noteq> 0 \<and> vh * 0.3 - rect_top a2 \<noteq> 0)"
  then have "vh * 0.3 - rect_top a1 \<le> vh * 0.3 - rect_top a2" by simp
  with h show "js_le (vertical_progress a1 vh) (vertical_progress a2 vh)"
    unfolding vertical_progress_def Let_def
    using clamp_div_mono [of "vh * 0.3 - rect_top a1" "vh * 0.3 - rect_top a2"
        "rect_height a1 - vh * 0.3"]
    by simp
next
  assume h: "rect_top r2 \<le> rect_top r1 \<and> 0 \<le> sh - ch
      \<and> (sh - ch = 0 \<longrightarrow> rect_top r1 \<noteq> 0 \<and> rect_top r2 \<noteq> 0)"
  then have "- rect_top r1 \<le> - rect_top r2" by simp
  with h show "js_le (horizontal_progress r1 sh ch) (horizontal_progress r2 sh ch)"
    unfolding horizontal_progress_def Let_def
    using clamp_div_mono [of "- rect_top r1" "- rect_top r2" "sh - ch"]
    by simp
qed

theorem progress_monotone_witness:
  "js_le
     (vertical_progress
        \<lparr>rect_top = 250, rect_left = 0, rect_width = 400, rect_height = 400\<rparr> 1000)
     (vertical_progress
        \<lparr>rect_top = 200, rect_left = 0, rect_width = 400, rect_height = 400\<rparr> 1000)
   \<and> js_le
       (horizontal_progress
          \<lparr>rect_top = - 500, rect_left = 0, rect_width = 1200, rect_height = 2300\<rparr> 2300 800)
       (horizontal_progress
          \<lparr>rect_top = - 800, rect_left = 0, rect_width = 1200, rect_height = 2300\<rparr> 2300 800)"
  using progress_monotone
    [of "\<lparr>rect_top = 200, rect_left = 0, rect_width = 400, rect_height = 400\<rparr>"
        "\<lparr>rect_top = 250, rect_left = 0, rect_width = 400, rect_height = 400\<rparr>" 1000
        "\<lparr>rect_top = - 800, rect_left = 0, rect_width = 1200, rect_height = 2300\<rparr>"
        "\<lparr>rect_top = - 500, rect_left = 0, rect_width = 1200, rect_height = 2300\<rparr>" 2300 800]
  by simp

section \<open>What each pass leaves alone\<close>

text \<open>
  Neither the Dimension Calculator nor the scroll-driven update touches the current
  index or the item data.
\<close>

lemma calculateDimensions_currentIndex:
  "currentIndex (calculateDimensions d t) = currentIndex t"
  by (simp add: calculateDimensions_def Let_def split: option.splits)

lemma calculateDimensions_data_length:
  "data_length (calculateDimensions d t) = data_length t"
  by (simp add: calculateDimensions_def Let_def split: option.splits)

lemma updateTimeline_currentIndex:
  "currentIndex (updateTimeline d t) = currentIndex t"
  by (simp add: updateTimeline_def Let_def split: option.splits)

section \<open>The structure of \<open>updateTimeline\<close>\<close>

text \<open>
  The pass returns at once, writing nothing, when the scroll spacer, the items track
  or the progress fill is missing, and in the vertical layout when the timeline area
  is missing.
\<close>

lemma updateTimeline_skip:
  "scrollSpacer d = None \<or> itemsTrack d = None \<or> \<not> progressFill d
   \<or> (isVerticalMobile d t \<and> timelineArea d = None)
   \<Longrightarrow> updateTimeline d t = t"
  unfolding updateTimeline_def Let_def
  by (cases "scrollSpacer d"; cases "itemsTrack d"; cases "timelineArea d"; simp)

text \<open>
  Past these guards the horizontal pass writes the fill from the horizontal progress,
  moves both tracks by the progress times the overflow of the track when the items
  container exists, and recomputes the dots when the progress container exists.
\<close>

lemma updateTimeline_horizontal:
  assumes "scrollSpacer d = Some spacer" and "itemsTrack d = Some track" and "progressFill d"
    and "\<not> isVerticalMobile d t"
    and "progress = horizontal_progress (boundingClientRect spacer) (scrollHeight t)
            (case stickyWrapper d of Some w \<Rightarrow> offsetHeight w | None \<Rightarrow> innerHeight d)"
  shows "fill_width (updateTimeline d t) = Percent (js_mul progress (Fin 100))"
    and "fill_height (updateTimeline d t) = Percent (Fin 100)"
    and "itemsContainer d = None \<Longrightarrow>
           itemsTrack_transform (updateTimeline d t) = itemsTrack_transform t
           \<and> labelsTrack_transform (updateTimeline d t) = labelsTrack_transform t"
    and "itemsContainer d = Some container \<Longrightarrow>
           itemsTrack_transform (updateTimeline d t) =
             TranslateX_neg_px
               (js_mul progress (Fin (max 0 (scrollWidth track - offsetWidth container))))"
    and "itemsContainer d = Some container \<Longrightarrow> labelsTrack d \<Longrightarrow>
           labelsTrack_transform (updateTimeline d t) =
             TranslateX_neg_px
               (js_mul progress (Fin (max 0 (scrollWidth track - offsetWidth container))))"
    and "progressContainer d = None \<Longrightarrow> dots_filled (updateTimeline d t) = dots_filled t"
    and "progressContainer d = Some pc \<Longrightarrow>
           dots_filled (updateTimeline d t) =
             map (\<lambda>dot. js_ge (js_add (Fin (rect_left (boundingClientRect pc)))
                                  (js_mul progress (Fin (rect_width (boundingClientRect pc)))))
                               (Fin (dotCenter_horizontal dot))) (dots d)"
  using assms unfolding updateTimeline_def Let_def
  by (cases "itemsContainer d"; cases "progressContainer d"; simp)+

text \<open>
  The vertical pass writes the fill from the vertical progress, never moves a track,
  and recomputes the dots when the progress track exists.
\<close>

lemma updateTimeline_vertical:
  assumes "scrollSpacer d = Some spacer" and "itemsTrack d = Some track" and "progressFill d"
    and "isVerticalMobile d t"
    and "timelineArea d = Some area"
    and "progress = vertical_progress (boundingClientRect area) (innerHeight d)"
  shows "fill_height (updateTimeline d t) = Percent (js_mul progress (Fin 100))"
    and "fill_width (updateTimeline d t) = Percent (Fin 100)"
    and "itemsTrack_transform (updateTimeline d t) = itemsTrack_transform t"
    and "labelsTrack_transform (updateTimeline d t) = labelsTrack_transform t"
    and "progressTrack d = None \<Longrightarrow> dots_filled (updateTimeline d t) = dots_filled t"
    and "progressTrack d = Some ptrack \<Longrightarrow>
           dots_filled (updateTimeline d t) =
             map (\<lambda>dot. js_ge (js_add (Fin (rect_top (boundingClientRect ptrack)))
                                  (js_mul progress (Fin (rect_height (boundingClientRect ptrack)))))
                               (Fin (dotCenter_vertical dot))) (dots d)"
  using assms unfolding updateTimeline_def Let_def
  by (cases "progressTrack d"; simp)+

section \<open>The structure of \<open>goToIndex\<close>\<close>

text \<open>
  The centring block either is skipped as a whole, when one of its targets is
  missing, or moves the tracks and sets the fill.
\<close>

lemma js_index_Nil: "js_index [] i = None"
  by (simp add: js_index_def)

lemma centerCurrentItem_skip:
  assumes "itemsContainer d = None \<or> itemsTrack d = None \<or> progressTrack d = None
           \<or> js_index (items d) (currentIndex t) = None
           \<or> js_index (dots d) (currentIndex t) = None"
  shows "centerCurrentItem d k t = (Normal, t)"
  using assms
  by (auto simp: centerCurrentItem_def Let_def js_index_Nil split: option.splits)

lemma centerCurrentItem_move:
  assumes "itemsContainer d = Some container" and "itemsTrack d = Some track"
    and "progressTrack d = Some ptrack"
    and "js_index (items d) (currentIndex t) = Some item"
    and "js_index (dots d) (currentIndex t) = Some dot"
  shows "centerCurrentItem d k t =
     (let x = min (max 0 (offsetLeft item - offsetWidth container / 2 + offsetWidth item / 2))
                  (max 0 (scrollWidth track - offsetWidth container));
          t1 = t\<lparr>itemsTrack_transform := TranslateX_neg_px (Fin x)\<rparr>;
          t2 = (if labelsTrack d then t1\<lparr>labelsTrack_transform := TranslateX_neg_px (Fin x)\<rparr>
                else t1);
          computed = Math_min (Fin 100)
                       (Math_max (Fin 0)
                          (js_mul (js_div (offsetLeft item + offsetWidth item / 2 - x)
                                          (offsetWidth ptrack)) (Fin 100)))
      in if progressFill d
         then (Normal, t2\<lparr>fill_width :=
                            Percent (if currentIndex t = k - 1 then Fin 100 else computed)\<rparr>)
         else (TypeError, t2))"
proof -
  from assms(4) have "items d \<noteq> []" by (auto simp: js_index_Nil)
  with assms show ?thesis
    unfolding centerCurrentItem_def Let_def by simp
qed

lemma centerCurrentItem_currentIndex:
  "currentIndex (snd (centerCurrentItem d k t)) = currentIndex t"
  by (simp add: centerCurrentItem_def Let_def split: option.splits)

lemma centerCurrentItem_data_length:
  "data_length (snd (centerCurrentItem d k t)) = data_length t"
  by (simp add: centerCurrentItem_def Let_def split: option.splits)

lemma updateArrowStates_fields:
  "currentIndex (snd (updateArrowStates d t)) = currentIndex t"
  "data_length (snd (updateArrowStates d t)) = data_length t"
  "itemsTrack_transform (snd (updateArrowStates d t)) = itemsTrack_transform t"
  "labelsTrack_transform (snd (updateArrowStates d t)) = labelsTrack_transform t"
  "fill_width (snd (updateArrowStates d t)) = fill_width t"
  "dots_filled (snd (updateArrowStates d t)) = dots_filled t"
  by (simp_all add: updateArrowStates_def split: option.splits)

lemma updateArrowStates_Normal:
  "data_length t = Some n \<Longrightarrow> fst (updateArrowStates d t) = Normal"
  by (simp add: updateArrowStates_def)

lemma goToIndex_no_data:
  "data_length t = None \<or> data_length t = Some 0 \<Longrightarrow> goToIndex d i t = (Normal, t)"
  by (auto simp: goToIndex_def)

lemma goToIndex_unfold:
  assumes "data_length t = Some n" and "0 < n"
  shows "goToIndex d i t =
    (case centerCurrentItem d (int n) (t\<lparr>currentIndex := max 0 (min i (int n - 1))\<rparr>) of
       (TypeError, t2) \<Rightarrow> (TypeError, t2)
     | (Normal, t2) \<Rightarrow>
         updateArrowStates d
           (t2\<lparr>dots_filled := map (\<lambda>k. int k \<le> currentIndex t2) [0..<length (dots d)]\<rparr>))"
  using assms unfolding goToIndex_def Let_def by simp

text \<open>
  With item data present, \<open>goToIndex\<close> sets the clamped index, keeps what the centring
  block wrote to the tracks and the fill, and, unless that block threw, fills the dots
  up to the current index.
\<close>

lemma goToIndex_after_center:
  assumes "data_length t = Some n" and "0 < n"
    and "centerCurrentItem d (int n) (t\<lparr>currentIndex := max 0 (min i (int n - 1))\<rparr>) = (c, t2)"
  shows "currentIndex (snd (goToIndex d i t)) = max 0 (min i (int n - 1))"
    and "itemsTrack_transform (snd (goToIndex d i t)) = itemsTrack_transform t2"
    and "labelsTrack_transform (snd (goToIndex d i t)) = labelsTrack_transform t2"
    and "fill_width (snd (goToIndex d i t)) = fill_width t2"
    and "c = Normal \<Longrightarrow> fst (goToIndex d i t) = Normal"
    and "c = Normal \<Longrightarrow> dots_filled (snd (goToIndex d i t)) =
           map (\<lambda>k. int k \<le> max 0 (min i (int n - 1))) [0..<length (dots d)]"
proof -
  have ci: "currentIndex t2 = max 0 (min i (int n - 1))"
    using centerCurrentItem_currentIndex
      [of d "int n" "t\<lparr>currentIndex := max 0 (min i (int n - 1))\<rparr>"] assms(3) by simp
  have dl: "data_length t2 = Some n"
    using centerCurrentItem_data_length
      [of d "int n" "t\<lparr>currentIndex := max 0 (min i (int n - 1))\<rparr>"] assms by simp
  have g: "goToIndex d i t =
    (case c of TypeError \<Rightarrow> (TypeError, t2)
     | Normal \<Rightarrow> updateArrowStates d
           (t2\<lparr>dots_filled := map (\<lambda>k. int k \<le> currentIndex t2) [0..<length (dots d)]\<rparr>))"
    using assms by (simp add: goToIndex_unfold)
  show "currentIndex (snd (goToIndex d i t)) = max 0 (min i (int n - 1))"
    unfolding g using ci by (cases c) (simp_all add: updateArrowStates_fields)
  show "itemsTrack_transform (snd (goToIndex d i t)) = itemsTrack_transform t2"
    unfolding g by (cases c) (simp_all add: updateArrowStates_fields)
  show "labelsTrack_transform (snd (goToIndex d i t)) = labelsTrack_transform t2"
    unfolding g by (cases c) (simp_all add: updateArrowStates_fields)
  show "fill_width (snd (goToIndex d i t)) = fill_width t2"
    unfolding g by (cases c) (simp_all add: updateArrowStates_fields)
  show "c = Normal \<Longrightarrow> fst (goToIndex d i t) = Normal"
    unfolding g using dl by (simp add: updateArrowStates_Normal)
  show "c = Normal \<Longrightarrow> dots_filled (snd (goToIndex d i t)) =
           map (\<lambda>k. int k \<le> max 0 (min i (int n - 1))) [0..<length (dots d)]"
    unfolding g using ci by (simp add: updateArrowStates_fields)
qed

text \<open>
  The current index stays within the items: \<open>goToIndex\<close> puts it there, and \<open>goNext\<close>
  and \<open>goPrev\<close> keep it there.
\<close>

lemma goToIndex_index_in_range:
  assumes "data_length t = Some n" and "0 < n"
  shows "0 \<le> currentIndex (snd (goToIndex d i t))
         \<and> currentIndex (snd (goToIndex d i t)) \<le> int n - 1"
proof -
  obtain c t2 where
    c: "centerCurrentItem d (int n) (t\<lparr>currentIndex := max 0 (min i (int n - 1))\<rparr>) = (c, t2)"
    by (cases "centerCurrentItem d (int n) (t\<lparr>currentIndex := max 0 (min i (int n - 1))\<rparr>)")
  show ?thesis
    using goToIndex_after_center(1) [OF assms c] assms(2) by simp
qed

lemma goNext_index_in_range:
  assumes "data_length t = Some n" and "0 \<le> currentIndex t" and "currentIndex t \<le> int n - 1"
  shows "0 \<le> currentIndex (snd (goNext d t)) \<and> currentIndex (snd (goNext d t)) \<le> int n - 1"
proof (cases "currentIndex t < int n - 1")
  case True
  with assms have "0 < n" by simp
  with True assms(1) show ?thesis
    using goToIndex_index_in_range [of t n d "currentIndex t + 1"] by (simp add: goNext_def)
next
  case False
  with assms show ?thesis by (simp add: goNext_def)
qed

lemma goPrev_index_in_range:
  assumes "data_length t = Some n" and "0 \<le> currentIndex t" and "currentIndex t \<le> int n - 1"
  shows "0 \<le> currentIndex (snd (goPrev d t)) \<and> currentIndex (snd (goPrev d t)) \<le> int n - 1"
proof (cases "0 < currentIndex t")
  case True
  with assms have "0 < n" by simp
  with True assms(1) show ?thesis
    using goToIndex_index_in_range [of t n d "currentIndex t - 1"] by (simp add: goPrev_def)
next
  case False
  with assms show ?thesis by (simp add: goPrev_def)
qed

section \<open>Properties of the Index Navigator\<close>

text \<open>
  Claim C10. In arrow mode the resize recomputation calls \<open>calculateDimensions\<close> and
  then either \<open>updateTimeline\<close> (vertical mobile layout) or \<open>goToIndex\<close> with the
  existing \<open>currentIndex\<close>. With the item data unchanged and the index in range,
  clamping is the identity: the selected item is the same after the recomputation.
\<close>

theorem resize_keeps_currentIndex:
  assumes "data_length t = Some n" and "0 \<le> currentIndex t" and "currentIndex t \<le> int n - 1"
  shows "currentIndex (snd (resizeArrows d t)) = currentIndex t"
proof -
  from assms have n: "0 < n" by simp
  obtain c t2 where c: "centerCurrentItem d (int n)
      ((calculateDimensions d t)\<lparr>currentIndex := max 0 (min (currentIndex t) (int n - 1))\<rparr>) = (c, t2)"
    by (cases "centerCurrentItem d (int n)
      ((calculateDimensions d t)\<lparr>currentIndex := max 0 (min (currentIndex t) (int n - 1))\<rparr>)")
  have "currentIndex (snd (goToIndex d (currentIndex t) (calculateDimensions d t))) =
          max 0 (min (currentIndex t) (int n - 1))"
    using goToIndex_after_center(1) [of "calculateDimensions d t" n d "currentIndex t" c t2]
      assms(1) n c
    by (simp add: calculateDimensions_data_length)
  with assms show ?thesis
    by (simp add: resizeArrows_def Let_def calculateDimensions_currentIndex
        updateTimeline_currentIndex)
qed

theorem resize_keeps_currentIndex_witness:
  "data_length (snd (goToIndex desktop_page 3 (fresh_timeline Arrows Horizontal 5))) = Some 5
   \<and> currentIndex (snd (goToIndex desktop_page 3 (fresh_timeline Arrows Horizontal 5))) = 3
   \<and> currentIndex
        (snd (resizeArrows desktop_page
           (snd (goToIndex desktop_page 3 (fresh_timeline Arrows Horizontal 5))))) = 3"
proof -
  have a: "data_length (snd (goToIndex desktop_page 3 (fresh_timeline Arrows Horizontal 5))) = Some 5"
    by (simp add: goToIndex_def centerCurrentItem_def updateArrowStates_def desktop_page_def
        fresh_timeline_def box_def js_index_def js_div_def Let_def)
  have b: "currentIndex (snd (goToIndex desktop_page 3 (fresh_timeline Arrows Horizontal 5))) = 3"
    by (simp add: goToIndex_def centerCurrentItem_def updateArrowStates_def desktop_page_def
        fresh_timeline_def box_def js_index_def js_div_def Let_def)
  show ?thesis
    using resize_keeps_currentIndex
      [of "snd (goToIndex desktop_page 3 (fresh_timeline Arrows Horizontal 5))" 5 desktop_page]
      a b by simp
qed

text \<open>
  Claim C5. With at least one item, \<open>goToIndex i\<close> sets \<open>currentIndex\<close> to \<open>i\<close>
  clamped into \<open>[0, itemCount - 1]\<close>. When the targets of the pass exist (container,
  track, progress track, progress fill, the target item and its dot) it returns
  normally and translates the item track, and the label track when there is one, by
  \<open>itemOffset - containerLength / 2 + itemLength / 2\<close> clamped into
  \<open>[0, maxTranslate]\<close>, where \<open>maxTranslate\<close> is the overflow of the track over the
  container, or zero; and when the clamped index is the last one the fill is 100
  percent whatever the geometry.
\<close>

theorem goToIndex_centers_item:
  assumes "data_length t = Some n" and "0 < n"
  shows "currentIndex (snd (goToIndex d i t)) = max 0 (min i (int n - 1))
    \<and> (itemsContainer d = Some container \<and> itemsTrack d = Some track
         \<and> progressTrack d = Some ptrack \<and> progressFill d
         \<and> js_index (items d) (max 0 (min i (int n - 1))) = Some item
         \<and> js_index (dots d) (max 0 (min i (int n - 1))) = Some dot \<longrightarrow>
       fst (goToIndex d i t) = Normal
       \<and> itemsTrack_transform (snd (goToIndex d i t)) =
           TranslateX_neg_px
             (Fin (max 0 (min (offsetLeft item - offsetWidth container / 2 + offsetWidth item / 2)
                              (max 0 (scrollWidth track - offsetWidth container)))))
       \<and> (labelsTrack d \<longrightarrow>
            labelsTrack_transform (snd (goToIndex d i t)) =
              TranslateX_neg_px
                (Fin (max 0 (min (offsetLeft item - offsetWidth container / 2
                                    + offsetWidth item / 2)
                                 (max 0 (scrollWidth track - offsetWidth container))))))
       \<and> (max 0 (min i (int n - 1)) = int n - 1 \<longrightarrow>
            fill_width (snd (goToIndex d i t)) = Percent (Fin 100)))"
proof (intro conjI impI)
  let ?ci = "max 0 (min i (int n - 1))"
  let ?t1 = "t\<lparr>currentIndex := ?ci\<rparr>"
  obtain c t2 where c: "centerCurrentItem d (int n) ?t1 = (c, t2)"
    by (cases "centerCurrentItem d (int n) ?t1")
  show "currentIndex (snd (goToIndex d i t)) = ?ci"
    using goToIndex_after_center(1) [OF assms c] .
  assume h: "itemsContainer d = Some container \<and> itemsTrack d = Some track
         \<and> progressTrack d = Some ptrack \<and> progressFill d
         \<and> js_index (items d) ?ci = Some item
         \<and> js_index (dots d) ?ci = Some dot"
  let ?x = "min (max 0 (offsetLeft item - offsetWidth container / 2 + offsetWidth item / 2))
                (max 0 (scrollWidth track - offsetWidth container))"
  have x: "?x = max 0 (min (offsetLeft item - offsetWidth container / 2 + offsetWidth item / 2)
                              (max 0 (scrollWidth track - offsetWidth container)))"
    by (simp add: max_def min_def)
  have m: "centerCurrentItem d (int n) ?t1 =
     (let t1 = ?t1\<lparr>itemsTrack_transform := TranslateX_neg_px (Fin ?x)\<rparr>;
          t2 = (if labelsTrack d then t1\<lparr>labelsTrack_transform := TranslateX_neg_px (Fin ?x)\<rparr>
                else t1);
          computed = Math_min (Fin 100)
                       (Math_max (Fin 0)
                          (js_mul (js_div (offsetLeft item + offsetWidth item / 2 - ?x)
                                          (offsetWidth ptrack)) (Fin 100)))
      in (Normal, t2\<lparr>fill_width :=
                            Percent (if ?ci = int n - 1 then Fin 100 else computed)\<rparr>))"
    using centerCurrentItem_move [of d container track ptrack ?t1 item dot "int n"] h
    by (simp add: Let_def)
  from m c have cn: "c = Normal" by (simp add: Let_def)
  from m c have ti: "itemsTrack_transform t2 = TranslateX_neg_px (Fin ?x)"
    by (auto simp: Let_def)
  from m c have tl: "labelsTrack d \<Longrightarrow> labelsTrack_transform t2 = TranslateX_neg_px (Fin ?x)"
    by (auto simp: Let_def)
  from m c have tf: "?ci = int n - 1 \<Longrightarrow> fill_width t2 = Percent (Fin 100)"
    by (auto simp: Let_def)
  show "fst (goToIndex d i t) = Normal"
    using goToIndex_after_center(5) [OF assms c] cn .
  show "itemsTrack_transform (snd (goToIndex d i t)) = TranslateX_neg_px
             (Fin (max 0 (min (offsetLeft item - offsetWidth container / 2 + offsetWidth item / 2)
                              (max 0 (scrollWidth track - offsetWidth container)))))"
    using goToIndex_after_center(2) [OF assms c] ti x by simp
  show "labelsTrack_transform (snd (goToIndex d i t)) = TranslateX_neg_px
             (Fin (max 0 (min (offsetLeft item - offsetWidth container / 2 + offsetWidth item / 2)
                              (max 0 (scrollWidth track - offsetWidth container)))))"
    if "labelsTrack d"
    using goToIndex_after_center(3) [OF assms c] tl that x by simp
  show "fill_width (snd (goToIndex d i t)) = Percent (Fin 100)" if "?ci = int n - 1"
    using goToIndex_after_center(4) [OF assms c] tf that by simp
qed

theorem goToIndex_centers_item_witness:
  "currentIndex (snd (goToIndex desktop_page 7 (fresh_timeline Arrows Horizontal 5))) = 4
   \<and> fst (goToIndex desktop_page 7 (fresh_timeline Arrows Horizontal 5)) = Normal
   \<and> itemsTrack_transform (snd (goToIndex desktop_page 7 (fresh_timeline Arrows Horizontal 5)))
       = TranslateX_neg_px (Fin 800)
   \<and> labelsTrack_transform (snd (goToIndex desktop_page 7 (fresh_timeline Arrows Horizontal 5)))
       = TranslateX_neg_px (Fin 800)
   \<and> fill_width (snd (goToIndex desktop_page 7 (fresh_timeline Arrows Horizontal 5)))
       = Percent (Fin 100)"
  using goToIndex_centers_item
    [where t = "fresh_timeline Arrows Horizontal 5" and n = 5 and d = desktop_page and i = 7
       and container = "box 0 320 1200 400"
       and track = "(box 0 320 1200 400)\<lparr>scrollWidth := 2000\<rparr>"
       and ptrack = "box 0 300 1200 4" and item = "box 1600 320 400 400"
       and dot = "box 1790 290 20 20"]
  by (simp add: fresh_timeline_def desktop_page_def box_def js_index_def)

section \<open>Properties of the Dimension Calculator\<close>

text \<open>
  Claim C7. With at least one item, a positive \<open>scrollPerItem\<close> and the scroll spacer
  in the page: in scroll-driven horizontal mode \<open>calculateDimensions\<close> sets
  \<open>scrollHeight\<close> to \<open>contentHeight + itemCount * scrollPerItem\<close> and writes it as
  the height of the spacer in pixels (five items, 300 per item and a content height of
  800 give 2300); when \<open>navigationType\<close> is \<open>'arrows'\<close> or the vertical mobile layout is
  active, the spacer height is \<open>'auto'\<close> and \<open>scrollHeight\<close> is not written. The
  content height is the \<open>offsetHeight\<close> of the sticky wrapper, or the viewport height
  when there is none.
\<close>

theorem calculateDimensions_scroll_height:
  assumes "data_length t = Some n" and "0 < n" and "0 < scrollPerItem t"
    and "scrollSpacer d = Some spacer"
  shows "(navigationType t \<noteq> Arrows \<and> \<not> isVerticalMobile d t \<longrightarrow>
           scrollHeight (calculateDimensions d t) =
             (case stickyWrapper d of Some w \<Rightarrow> offsetHeight w | None \<Rightarrow> innerHeight d)
               + real n * scrollPerItem t
           \<and> spacer_height (calculateDimensions d t) =
               Px (Fin ((case stickyWrapper d of Some w \<Rightarrow> offsetHeight w | None \<Rightarrow> innerHeight d)
                        + real n * scrollPerItem t)))
       \<and> (navigationType t = Arrows \<or> isVerticalMobile d t \<longrightarrow>
           spacer_height (calculateDimensions d t) = Auto
           \<and> scrollHeight (calculateDimensions d t) = scrollHeight t)"
  using assms by (auto simp: calculateDimensions_def Let_def)

theorem calculateDimensions_scroll_height_witness:
  "scrollHeight (calculateDimensions desktop_page (fresh_timeline Scroll Horizontal 5)) = 2300
   \<and> spacer_height (calculateDimensions desktop_page (fresh_timeline Scroll Horizontal 5))
       = Px (Fin 2300)
   \<and> spacer_height (calculateDimensions desktop_page (fresh_timeline Arrows Horizontal 5)) = Auto
   \<and> spacer_height (calculateDimensions (mobile_page 100 400) (fresh_timeline Scroll Vertical 3))
       = Auto"
  using calculateDimensions_scroll_height
      [of "fresh_timeline Scroll Horizontal 5" 5 desktop_page "box 0 (- 750) 1200 2300"]
    calculateDimensions_scroll_height
      [of "fresh_timeline Arrows Horizontal 5" 5 desktop_page "box 0 (- 750) 1200 2300"]
    calculateDimensions_scroll_height
      [of "fresh_timeline Scroll Vertical 3" 3 "mobile_page 100 400" "box 0 100 400 600"]
  by (simp add: isVerticalMobile_def fresh_timeline_def desktop_page_def mobile_page_def box_def)

section \<open>The two tracks move together\<close>

text \<open>
  \<open>buildLayout\<close> creates the label track before the item track, and \<open>destroy\<close>
  clears only the item track, so an instance that has an item track has a label track.
  Under that condition each pass either leaves both transforms as they were or writes
  the same value to both.
\<close>

lemma updateTimeline_locked:
  assumes "itemsTrack d \<noteq> None \<longrightarrow> labelsTrack d"
  shows "(itemsTrack_transform (updateTimeline d t) = itemsTrack_transform t
          \<and> labelsTrack_transform (updateTimeline d t) = labelsTrack_transform t)
         \<or> itemsTrack_transform (updateTimeline d t) = labelsTrack_transform (updateTimeline d t)"
proof (cases "scrollSpacer d = None \<or> itemsTrack d = None \<or> \<not> progressFill d")
  case True
  then have "updateTimeline d t = t" by (intro updateTimeline_skip) blast
  then show ?thesis by simp
next
  case False
  then obtain spacer track where g: "scrollSpacer d = Some spacer" "itemsTrack d = Some track"
    "progressFill d" by auto
  with assms have l: "labelsTrack d" by simp
  show ?thesis
  proof (cases "isVerticalMobile d t")
    case True
    show ?thesis
    proof (cases "timelineArea d")
      case None
      with True have "updateTimeline d t = t" by (intro updateTimeline_skip) blast
      then show ?thesis by simp
    next
      case (Some area)
      show ?thesis
        using updateTimeline_vertical(3,4) [OF g True Some refl] by simp
    qed
  next
    case False
    show ?thesis
    proof (cases "itemsContainer d")
      case None
      then show ?thesis using updateTimeline_horizontal(3) [OF g False refl] by simp
    next
      case (Some container)
      then show ?thesis
        using updateTimeline_horizontal(4) [OF g False refl Some]
          updateTimeline_horizontal(5) [OF g False refl Some l] by simp
    qed
  qed
qed

lemma centerCurrentItem_locked:
  assumes "itemsTrack d \<noteq> None \<longrightarrow> labelsTrack d"
  shows "(itemsTrack_transform (snd (centerCurrentItem d k t)) = itemsTrack_transform t
          \<and> labelsTrack_transform (snd (centerCurrentItem d k t)) = labelsTrack_transform t)
         \<or> itemsTrack_transform (snd (centerCurrentItem d k t))
             = labelsTrack_transform (snd (centerCurrentItem d k t))"
proof (cases "itemsContainer d = None \<or> itemsTrack d = None \<or> progressTrack d = None
           \<or> js_index (items d) (currentIndex t) = None
           \<or> js_index (dots d) (currentIndex t) = None")
  case True
  then show ?thesis by (simp add: centerCurrentItem_skip)
next
  case False
  then obtain container track ptrack item dot where g: "itemsContainer d = Some container"
    "itemsTrack d = Some track" "progressTrack d = Some ptrack"
    "js_index (items d) (currentIndex t) = Some item"
    "js_index (dots d) (currentIndex t) = Some dot" by auto
  with assms have l: "labelsTrack d" by simp
  show ?thesis
    using l by (simp add: centerCurrentItem_move [OF g] Let_def)
qed

text \<open>
  Claim C6. For an instance whose label track exists whenever its item track does,
  and whose two tracks carry the same transform (as they do initially, when neither has
  one), the transform of the item track equals the transform of the label track after
  \<open>updateTimeline\<close> and after \<open>goToIndex\<close>.
\<close>

theorem tracks_locked:
  assumes "itemsTrack d \<noteq> None \<longrightarrow> labelsTrack d"
    and "itemsTrack_transform t = labelsTrack_transform t"
  shows "itemsTrack_transform (updateTimeline d t) = labelsTrack_transform (updateTimeline d t)
       \<and> itemsTrack_transform (snd (goToIndex d i t)) = labelsTrack_transform (snd (goToIndex d i t))"
proof
  show "itemsTrack_transform (updateTimeline d t) = labelsTrack_transform (updateTimeline d t)"
    using updateTimeline_locked [OF assms(1), of t] assms(2) by auto
  show "itemsTrack_transform (snd (goToIndex d i t)) = labelsTrack_transform (snd (goToIndex d i t))"
  proof (cases "data_length t = None \<or> data_length t = Some 0")
    case True
    then show ?thesis using assms(2) by (simp add: goToIndex_no_data)
  next
    case False
    then obtain n where n: "data_length t = Some n" "0 < n" by auto
    let ?t1 = "t\<lparr>currentIndex := max 0 (min i (int n - 1))\<rparr>"
    obtain c t2 where c: "centerCurrentItem d (int n) ?t1 = (c, t2)"
      by (cases "centerCurrentItem d (int n) ?t1")
    have "itemsTrack_transform t2 = labelsTrack_transform t2"
      using centerCurrentItem_locked [OF assms(1), of "int n" ?t1] c assms(2) by auto
    then show ?thesis
      using goToIndex_after_center(2,3) [OF n c] by simp
  qed
qed

theorem tracks_locked_witness:
  "itemsTrack_transform (updateTimeline desktop_page
       (calculateDimensions desktop_page (fresh_timeline Scroll Horizontal 5)))
     = labelsTrack_transform (updateTimeline desktop_page
       (calculateDimensions desktop_page (fresh_timeline Scroll Horizontal 5)))
   \<and> itemsTrack_transform (updateTimeline desktop_page
       (calculateDimensions desktop_page (fresh_timeline Scroll Horizontal 5)))
     = TranslateX_neg_px (Fin 400)
   \<and> itemsTrack_transform (snd (goToIndex desktop_page 2 (fresh_timeline Arrows Horizontal 5)))
     = labelsTrack_transform (snd (goToIndex desktop_page 2 (fresh_timeline Arrows Horizontal 5)))
   \<and> itemsTrack_transform (snd (goToIndex desktop_page 2 (fresh_timeline Arrows Horizontal 5)))
     = TranslateX_neg_px (Fin 400)"
proof -
  have a: "itemsTrack desktop_page \<noteq> None \<longrightarrow> labelsTrack desktop_page"
    by (simp add: desktop_page_def)
  have b: "itemsTrack_transform (calculateDimensions desktop_page (fresh_timeline Scroll Horizontal 5))
     = labelsTrack_transform (calculateDimensions desktop_page (fresh_timeline Scroll Horizontal 5))"
    by (simp add: calculateDimensions_def isVerticalMobile_def fresh_timeline_def desktop_page_def
        box_def Let_def)
  have c: "itemsTrack_transform (fresh_timeline Arrows Horizontal 5)
     = labelsTrack_transform (fresh_timeline Arrows Horizontal 5)"
    by (simp add: fresh_timeline_def)
  have v1: "itemsTrack_transform (updateTimeline desktop_page
       (calculateDimensions desktop_page (fresh_timeline Scroll Horizontal 5)))
     = TranslateX_neg_px (Fin 400)"
    by (simp add: updateTimeline_def calculateDimensions_def isVerticalMobile_def
        horizontal_progress_def js_div_def fresh_timeline_def desktop_page_def box_def Let_def)
  have v2: "itemsTrack_transform (snd (goToIndex desktop_page 2 (fresh_timeline Arrows Horizontal 5)))
     = TranslateX_neg_px (Fin 400)"
    by (simp add: goToIndex_def centerCurrentItem_def updateArrowStates_def desktop_page_def
        fresh_timeline_def box_def js_index_def js_div_def Let_def)
  show ?thesis
    using tracks_locked [OF a b, of 2] tracks_locked [OF a c, of 2] v1 v2 by simp
qed

section \<open>Missing targets\<close>

text \<open>
  Without the items container the scroll-driven pass moves no track, and in the
  vertical layout without the progress track it recomputes no dot.
\<close>

lemma updateTimeline_no_container:
  assumes "itemsContainer d = None"
  shows "itemsTrack_transform (updateTimeline d t) = itemsTrack_transform t
         \<and> labelsTrack_transform (updateTimeline d t) = labelsTrack_transform t"
proof (cases "scrollSpacer d = None \<or> itemsTrack d = None \<or> \<not> progressFill d
              \<or> (isVerticalMobile d t \<and> timelineArea d = None)")
  case True
  then have "updateTimeline d t = t" by (rule updateTimeline_skip)
  then show ?thesis by simp
next
  case False
  then obtain spacer track where g: "scrollSpacer d = Some spacer" "itemsTrack d = Some track"
    "progressFill d" by auto
  show ?thesis
  proof (cases "isVerticalMobile d t")
    case True
    with False obtain area where "timelineArea d = Some area" by auto
    then show ?thesis using updateTimeline_vertical(3,4) [OF g True _ refl] by simp
  next
    case False
    then show ?thesis using updateTimeline_horizontal(3) [OF g False refl assms] by simp
  qed
qed

lemma updateTimeline_no_progressTrack:
  assumes "isVerticalMobile d t" and "progressTrack d = None"
  shows "dots_filled (updateTimeline d t) = dots_filled t"
proof (cases "scrollSpacer d = None \<or> itemsTrack d = None \<or> \<not> progressFill d
              \<or> (isVerticalMobile d t \<and> timelineArea d = None)")
  case True
  then have "updateTimeline d t = t" by (rule updateTimeline_skip)
  then show ?thesis by simp
next
  case False
  with assms(1) obtain spacer track area where g: "scrollSpacer d = Some spacer"
    "itemsTrack d = Some track" "progressFill d" and a: "timelineArea d = Some area" by auto
  show ?thesis using updateTimeline_vertical(5) [OF g assms(1) a refl assms(2)] .
qed

text \<open>
  Claim C3 does not hold as stated. On a page without the items container,
  \<open>goToIndex 2\<close> still sets \<open>currentIndex\<close> from 0 to 2 and fills the first three
  dots, and \<open>updateTimeline\<close> still writes the fill width: only the stage that needs
  the missing element is skipped.
\<close>

theorem missing_target_counterexample:
  "itemsContainer (desktop_page\<lparr>itemsContainer := None\<rparr>) = None
   \<and> currentIndex (fresh_timeline Arrows Horizontal 5) = 0
   \<and> currentIndex (snd (goToIndex (desktop_page\<lparr>itemsContainer := None\<rparr>) 2
                          (fresh_timeline Arrows Horizontal 5))) = 2
   \<and> dots_filled (fresh_timeline Arrows Horizontal 5) = [False, False, False, False, False]
   \<and> dots_filled (snd (goToIndex (desktop_page\<lparr>itemsContainer := None\<rparr>) 2
                         (fresh_timeline Arrows Horizontal 5)))
       = [True, True, True, False, False]
   \<and> fill_width (calculateDimensions desktop_page (fresh_timeline Scroll Horizontal 5)) = Unset
   \<and> fill_width (updateTimeline (desktop_page\<lparr>itemsContainer := None\<rparr>)
                    (calculateDimensions desktop_page (fresh_timeline Scroll Horizontal 5)))
       = Percent (Fin 50)"
  by (simp add: goToIndex_def centerCurrentItem_def updateArrowStates_def updateTimeline_def
      calculateDimensions_def isVerticalMobile_def horizontal_progress_def js_div_def
      desktop_page_def fresh_timeline_def box_def js_index_def Let_def upt_rec numeral_eq_Suc)

text \<open>
  Claim C3, amended. When the scroll spacer, the items track or the progress fill is
  missing, or the timeline area in the vertical layout, \<open>updateTimeline\<close> returns
  early and leaves the whole state unchanged; without the items container it leaves
  both track translations unchanged, and in the vertical layout without the progress
  track it leaves every dot unchanged. In \<open>goToIndex\<close> with item data, a missing items
  container, items track, progress track, target item or target dot makes the pass
  return normally with the track translations and the fill length unchanged, while
  \<open>currentIndex\<close> is still set to the clamped index and the dots are filled up to it.
\<close>

theorem missing_target_passes:
  "(scrollSpacer d = None \<or> itemsTrack d = None \<or> \<not> progressFill d
      \<or> (isVerticalMobile d t \<and> timelineArea d = None) \<longrightarrow>
      updateTimeline d t = t)
   \<and> (itemsContainer d = None \<longrightarrow>
        itemsTrack_transform (updateTimeline d t) = itemsTrack_transform t
        \<and> labelsTrack_transform (updateTimeline d t) = labelsTrack_transform t)
   \<and> (isVerticalMobile d t \<and> progressTrack d = None \<longrightarrow>
        dots_filled (updateTimeline d t) = dots_filled t)
   \<and> (data_length t = Some n \<and> 0 < n
        \<and> (itemsContainer d = None \<or> itemsTrack d = None \<or> progressTrack d = None
            \<or> js_index (items d) (max 0 (min i (int n - 1))) = None
            \<or> js_index (dots d) (max 0 (min i (int n - 1))) = None) \<longrightarrow>
        fst (goToIndex d i t) = Normal
        \<and> itemsTrack_transform (snd (goToIndex d i t)) = itemsTrack_transform t
        \<and> labelsTrack_transform (snd (goToIndex d i t)) = labelsTrack_transform t
        \<and> fill_width (snd (goToIndex d i t)) = fill_width t
        \<and> currentIndex (snd (goToIndex d i t)) = max 0 (min i (int n - 1))
        \<and> dots_filled (snd (goToIndex d i t)) =
            map (\<lambda>k. int k \<le> max 0 (min i (int n - 1))) [0..<length (dots d)])"
proof (intro conjI impI)
  assume "scrollSpacer d = None \<or> itemsTrack d = None \<or> \<not> progressFill d
      \<or> (isVerticalMobile d t \<and> timelineArea d = None)"
  then show "updateTimeline d t = t" by (rule updateTimeline_skip)
next
  assume "itemsContainer d = None"
  then show "itemsTrack_transform (updateTimeline d t) = itemsTrack_transform t"
    and "labelsTrack_transform (updateTimeline d t) = labelsTrack_transform t"
    using updateTimeline_no_container [of d t] by simp_all
next
  assume "isVerticalMobile d t \<and> progressTrack d = None"
  then show "dots_filled (updateTimeline d t) = dots_filled t"
    using updateTimeline_no_progressTrack [of d t] by simp
next
  let ?ci = "max 0 (min i (int n - 1))"
  let ?t1 = "t\<lparr>currentIndex := ?ci\<rparr>"
  assume h: "data_length t = Some n \<and> 0 < n
        \<and> (itemsContainer d = None \<or> itemsTrack d = None \<or> progressTrack d = None
            \<or> js_index (items d) ?ci = None \<or> js_index (dots d) ?ci = None)"
  then have n: "data_length t = Some n" "0 < n" by simp_all
  from h have c: "centerCurrentItem d (int n) ?t1 = (Normal, ?t1)"
    by (intro centerCurrentItem_skip) simp
  show "fst (goToIndex d i t) = Normal"
    using goToIndex_after_center(5) [OF n c] by simp
  show "itemsTrack_transform (snd (goToIndex d i t)) = itemsTrack_transform t"
    using goToIndex_after_center(2) [OF n c] by simp
  show "labelsTrack_transform (snd (goToIndex d i t)) = labelsTrack_transform t"
    using goToIndex_after_center(3) [OF n c] by simp
  show "fill_width (snd (goToIndex d i t)) = fill_width t"
    using goToIndex_after_center(4) [OF n c] by simp
  show "currentIndex (snd (goToIndex d i t)) = ?ci"
    using goToIndex_after_center(1) [OF n c] .
  show "dots_filled (snd (goToIndex d i t)) = map (\<lambda>k. int k \<le> ?ci) [0..<length (dots d)]"
    using goToIndex_after_center(6) [OF n c] by simp
qed

theorem missing_target_passes_witness:
  "updateTimeline (desktop_page\<lparr>scrollSpacer := None\<rparr>) (fresh_timeline Scroll Horizontal 5)
     = fresh_timeline Scroll Horizontal 5
   \<and> itemsTrack_transform
        (updateTimeline (desktop_page\<lparr>itemsContainer := None\<rparr>)
           (fresh_timeline Arrows Horizontal 5)) = Unset
   \<and> dots_filled
        (updateTimeline ((mobile_page 100 400)\<lparr>progressTrack := None\<rparr>)
           (fresh_timeline Scroll Vertical 3)) = [False, False, False]
   \<and> fst (goToIndex (desktop_page\<lparr>itemsContainer := None\<rparr>) 2
             (fresh_timeline Arrows Horizontal 5)) = Normal
   \<and> currentIndex (snd (goToIndex (desktop_page\<lparr>itemsContainer := None\<rparr>) 2
                          (fresh_timeline Arrows Horizontal 5))) = 2
   \<and> itemsTrack_transform (snd (goToIndex (desktop_page\<lparr>itemsContainer := None\<rparr>) 2
                                  (fresh_timeline Arrows Horizontal 5))) = Unset
   \<and> fill_width (snd (goToIndex (desktop_page\<lparr>itemsContainer := None\<rparr>) 2
                        (fresh_timeline Arrows Horizontal 5))) = Unset"
  using missing_target_passes
      [where d = "desktop_page\<lparr>scrollSpacer := None\<rparr>"
         and t = "fresh_timeline Scroll Horizontal 5" and n = 5 and i = 0]
    missing_target_passes
      [where d = "desktop_page\<lparr>itemsContainer := None\<rparr>"
         and t = "fresh_timeline Arrows Horizontal 5" and n = 5 and i = 2]
    missing_target_passes
      [where d = "(mobile_page 100 400)\<lparr>progressTrack := None\<rparr>"
         and t = "fresh_timeline Scroll Vertical 3" and n = 3 and i = 0]
  by (simp add: isVerticalMobile_def desktop_page_def mobile_page_def fresh_timeline_def
      numeral_eq_Suc)

section \<open>Properties of the Dot Synchronizer\<close>

text \<open>A fill edge that reaches a centre reaches every centre that is not beyond it.\<close>

lemma js_ge_Fin_mono: "js_ge e (Fin ci) \<Longrightarrow> cj \<le> ci \<Longrightarrow> js_ge e (Fin cj)"
  by (cases e) auto

text \<open>
  Claim C9. In a scroll-driven pass that recomputes the dots (horizontal layout with
  the progress container, vertical layout with the timeline area and the progress
  track), for two dots \<open>j < i\<close> whose centres along the primary axis are in the order
  of their indices, if dot \<open>i\<close> comes out filled then dot \<open>j\<close> comes out filled.
\<close>

theorem dot_fill_monotone:
  assumes "scrollSpacer d = Some spacer" and "itemsTrack d = Some track" and "progressFill d"
    and "j < i" and "i < length (dots d)"
    and "dots_filled (updateTimeline d t) ! i"
  shows "(\<not> isVerticalMobile d t \<and> progressContainer d = Some pc
          \<and> dotCenter_horizontal (dots d ! j) \<le> dotCenter_horizontal (dots d ! i) \<longrightarrow>
          dots_filled (updateTimeline d t) ! j)
       \<and> (isVerticalMobile d t \<and> timelineArea d = Some area \<and> progressTrack d = Some ptrack
          \<and> dotCenter_vertical (dots d ! j) \<le> dotCenter_vertical (dots d ! i) \<longrightarrow>
          dots_filled (updateTimeline d t) ! j)"
proof (intro conjI impI)
  from assms have j: "j < length (dots d)" by simp
  assume h: "\<not> isVerticalMobile d t \<and> progressContainer d = Some pc
          \<and> dotCenter_horizontal (dots d ! j) \<le> dotCenter_horizontal (dots d ! i)"
  then have v: "\<not> isVerticalMobile d t" and p: "progressContainer d = Some pc" by simp_all
  note eq = updateTimeline_horizontal(7) [OF assms(1-3) v refl p]
  from assms(6) show "dots_filled (updateTimeline d t) ! j"
    unfolding eq using assms(5) j h by (auto elim: js_ge_Fin_mono)
next
  from assms have j: "j < length (dots d)" by simp
  assume h: "isVerticalMobile d t \<and> timelineArea d = Some area \<and> progressTrack d = Some ptrack
          \<and> dotCenter_vertical (dots d ! j) \<le> dotCenter_vertical (dots d ! i)"
  then have v: "isVerticalMobile d t" and a: "timelineArea d = Some area"
    and p: "progressTrack d = Some ptrack" by simp_all
  note eq = updateTimeline_vertical(6) [OF assms(1-3) v a refl p]
  from assms(6) show "dots_filled (updateTimeline d t) ! j"
    unfolding eq using assms(5) j h by (auto elim: js_ge_Fin_mono)
qed

theorem dot_fill_monotone_witness:
  "dots_filled
     (updateTimeline (desktop_page\<lparr>scrollSpacer := Some (box 0 (- 1500) 1200 2300)\<rparr>)
        (calculateDimensions desktop_page (fresh_timeline Scroll Horizontal 5))) ! 2
   \<and> dots_filled
     (updateTimeline (desktop_page\<lparr>scrollSpacer := Some (box 0 (- 1500) 1200 2300)\<rparr>)
        (calculateDimensions desktop_page (fresh_timeline Scroll Horizontal 5))) ! 0
   \<and> dots_filled (updateTimeline (mobile_page 0 600) (fresh_timeline Scroll Vertical 3)) ! 2
   \<and> dots_filled (updateTimeline (mobile_page 0 600) (fresh_timeline Scroll Vertical 3)) ! 1"
proof -
  let ?dh = "desktop_page\<lparr>scrollSpacer := Some (box 0 (- 1500) 1200 2300)\<rparr>"
  let ?th = "calculateDimensions desktop_page (fresh_timeline Scroll Horizontal 5)"
  let ?dv = "mobile_page 0 600"
  let ?tv = "fresh_timeline Scroll Vertical 3"
  have h1: "scrollSpacer ?dh = Some (box 0 (- 1500) 1200 2300)"
    and h2: "itemsTrack ?dh = Some ((box 0 320 1200 400)\<lparr>scrollWidth := 2000\<rparr>)"
    and h3: "progressFill ?dh" and h5: "2 < length (dots ?dh)"
    and h7: "\<not> isVerticalMobile ?dh ?th"
    and h8: "progressContainer ?dh = Some (box 0 300 1200 4)"
    and h9: "dotCenter_horizontal (dots ?dh ! 0) \<le> dotCenter_horizontal (dots ?dh ! 2)"
    by (simp_all add: desktop_page_def isVerticalMobile_def box_def dotCenter_horizontal_def)
  have h6: "dots_filled (updateTimeline ?dh ?th) ! 2"
    by (simp add: updateTimeline_def calculateDimensions_def isVerticalMobile_def
        horizontal_progress_def js_div_def dotCenter_horizontal_def desktop_page_def
        fresh_timeline_def box_def Let_def)
  have v1: "scrollSpacer ?dv = Some (box 0 0 400 800)"
    and v2: "itemsTrack ?dv = Some (box 40 0 360 600)"
    and v3: "progressFill ?dv" and v5: "2 < length (dots ?dv)"
    and v7: "isVerticalMobile ?dv ?tv"
    and v8: "timelineArea ?dv = Some (box 0 0 400 600)"
    and v9: "progressTrack ?dv = Some (box 20 0 4 600)"
    and v10: "dotCenter_vertical (dots ?dv ! 1) \<le> dotCenter_vertical (dots ?dv ! 2)"
    by (simp_all add: mobile_page_def isVerticalMobile_def fresh_timeline_def box_def
        dotCenter_vertical_def)
  have v6: "dots_filled (updateTimeline ?dv ?tv) ! 2"
    by (simp add: updateTimeline_def isVerticalMobile_def vertical_progress_def js_div_def
        dotCenter_vertical_def mobile_page_def fresh_timeline_def box_def Let_def)
  have "dots_filled (updateTimeline ?dh ?th) ! 0"
    using dot_fill_monotone [OF h1 h2 h3 _ h5 h6, of 0 "box 0 300 1200 4"] h7 h8 h9 by simp
  moreover have "dots_filled (updateTimeline ?dv ?tv) ! 1"
    using dot_fill_monotone [OF v1 v2 v3 _ v5 v6, of 1 _ "box 0 0 400 600" "box 20 0 4 600"]
      v7 v8 v9 v10 by simp
  ultimately show ?thesis using h6 v6 by simp
qed

end
